theory Spec2Isabelle
  imports Complex_Main "HOL-Library.Word"
begin

section \<open>JavaScript values\<close>

text \<open>
  A JavaScript string is a sequence of UTF-16 code units and \<open>s.length\<close> counts them.
  String literals of the source are written \<open>lit ''...''\<close>.
\<close>

type_synonym jsstring = "16 word list"

definition lit :: "string \<Rightarrow> jsstring" where
  "lit s = map of_char s"

text \<open>
  The values a parsed JSON body, an item id, a compiler output or a diagnostic field can
  hold. \<open>JUndefined\<close> is the value of a property that is absent. An object is the list
  of its own properties; a parsed object has no key twice. \<open>JInfinity\<close> is the number
  \<open>Infinity\<close>, or \<open>-Infinity\<close> when its flag is set: no JSON text denotes it, but
  the conversion of a string to a number can give it.
\<close>

datatype jsval =
    JUndefined
  | JNull
  | JBool bool
  | JNum rat
  | JInfinity bool
  | JStr jsstring
  | JArr "jsval list"
  | JObj "(jsstring \<times> jsval) list"

text \<open>Truthiness, as \<open>!v\<close>, \<open>a && b\<close> and \<open>a || b\<close> use it.\<close>

fun truthy :: "jsval \<Rightarrow> bool" where
  "truthy JUndefined = False"
| "truthy JNull = False"
| "truthy (JBool b) = b"
| "truthy (JNum n) = (n \<noteq> 0)"
| "truthy (JInfinity b) = True"
| "truthy (JStr s) = (s \<noteq> [])"
| "truthy (JArr xs) = True"
| "truthy (JObj fs) = True"

fun typeof :: "jsval \<Rightarrow> string" where
  "typeof JUndefined = ''undefined''"
| "typeof JNull = ''object''"
| "typeof (JBool b) = ''boolean''"
| "typeof (JNum n) = ''number''"
| "typeof (JInfinity b) = ''number''"
| "typeof (JStr s) = ''string''"
| "typeof (JArr xs) = ''object''"
| "typeof (JObj fs) = ''object''"

fun isArray :: "jsval \<Rightarrow> bool" where
  "isArray (JArr xs) = True"
| "isArray v = False"

text \<open>The code units of a string value; it is applied to strings only.\<close>

fun chars_of :: "jsval \<Rightarrow> jsstring" where
  "chars_of (JStr s) = s"
| "chars_of v = []"

text \<open>Reading an own property of an object: \<open>undefined\<close> when the key is absent.\<close>

definition field :: "(jsstring \<times> jsval) list \<Rightarrow> jsstring \<Rightarrow> jsval" where
  "field fs k = (case map_of fs k of None \<Rightarrow> JUndefined | Some v \<Rightarrow> v)"

text \<open>
  \<open>body.items\<close> on an arbitrary value: reading a property of \<open>undefined\<close> or \<open>null\<close>
  throws a TypeError (\<open>None\<close>); an object gives its own property; an array, a string, a
  number and a boolean have no property of that name.
\<close>

fun body_items :: "jsval \<Rightarrow> jsval option" where
  "body_items JUndefined = None"
| "body_items JNull = None"
| "body_items (JObj fs) = Some (field fs (lit ''items''))"
| "body_items v = Some JUndefined"

section \<open>The compiler\<close>

text \<open>
  \<open>mjml2html\<close> is an imported library: the handlers take it as a parameter. It either
  throws an \<open>Error\<close> with a message or returns \<open>{ html, errors }\<close>, where \<open>errors\<close>, when
  present, is an array of diagnostic objects. Both handlers pass the same options.
\<close>

datatype exn = Exn jsstring

fun exn_message :: "exn \<Rightarrow> jsstring" where
  "exn_message (Exn m) = m"

record diagnostic =
  d_line :: jsval
  d_message :: jsval
  d_tagName :: jsval

record mjml_error = diagnostic +
  formattedMessage :: jsval

record compile_result =
  out_html :: jsval
  out_errors :: "mjml_error list option"

record options =
  validationLevel :: jsstring
  filePath :: jsstring

type_synonym compiler = "jsstring \<Rightarrow> options \<Rightarrow> exn + compile_result"

definition soft_options :: options where
  "soft_options = \<lparr>validationLevel = lit ''soft'', filePath = lit ''.''\<rparr>"

text \<open>\<open>errors && errors.length > 0\<close>\<close>

definition has_errors :: "mjml_error list option \<Rightarrow> bool" where
  "has_errors es = (case es of None \<Rightarrow> False | Some ds \<Rightarrow> length ds > 0)"

text \<open>\<open>errors.map((e) => ({ line: e.line, message: e.message, tagName: e.tagName }))\<close>\<close>

definition map_errors :: "mjml_error list option \<Rightarrow> diagnostic list" where
  "map_errors es =
     map (\<lambda>e. \<lparr>d_line = d_line e, d_message = d_message e, d_tagName = d_tagName e\<rparr>)
       (case es of None \<Rightarrow> [] | Some ds \<Rightarrow> ds)"

section \<open>Replies, the log and the environment\<close>

text \<open>
  The JSON bodies the service sends. A field that is \<open>undefined\<close> or not set is \<open>None\<close>.
  \<open>message\<close> is the envelope's optional echo of an exception's message.
\<close>

record envelope =
  error :: jsstring
  code :: jsstring
  errors :: "diagnostic list option"
  message :: "jsstring option"
  statusCode :: "nat option"

record item_result =
  r_id :: jsval
  r_success :: bool
  r_html :: "jsval option"
  r_error :: "jsstring option"
  r_code :: "jsstring option"
  r_errors :: "diagnostic list option"

record summary =
  total :: nat
  success :: nat
  failed :: nat

datatype payload =
    Html jsval
  | Failure envelope
  | Batch summary "item_result list"

record reply =
  status :: nat
  payload :: payload

text \<open>
  \<open>fastify.log\<close> is the only state that outlives a request. An entry keeps the level and
  the message; nothing in the program reads the log back.
\<close>

datatype level = Debug | Info | Warn | Err

record server =
  log :: "(level \<times> string) list"

definition log_write :: "level \<Rightarrow> string \<Rightarrow> server \<Rightarrow> server" where
  "log_write l m st = st\<lparr>log := log st @ [(l, m)]\<rparr>"

text \<open>\<open>process.env\<close>, as far as the handlers read it.\<close>

record env =
  NODE_ENV :: "jsstring option"

definition failure :: "jsstring \<Rightarrow> jsstring \<Rightarrow> envelope" where
  "failure e c = \<lparr>error = e, code = c, errors = None, message = None, statusCode = None\<rparr>"

section \<open>POST /render\<close>

text \<open>
  The route is registered with \<open>renderSchema\<close>, whose body has \<open>type: 'object'\<close>, so
  \<open>request.body\<close> is an object when the handler runs; the handler itself checks the
  \<open>mjml\<close> property. A reply is the status and the JSON body; a handler that returns
  an object answers 200.
\<close>

definition render :: "compiler \<Rightarrow> env \<Rightarrow> server \<Rightarrow> (jsstring \<times> jsval) list \<Rightarrow> reply \<times> server" where
  "render mjml2html env st body =
     (let mjml = field body (lit ''mjml'') in
      if \<not> truthy mjml \<or> typeof mjml \<noteq> ''string'' then
        (\<lparr>status = 400,
          payload = Failure (failure (lit ''MJML content is required and must be a string'')
                               (lit ''INVALID_INPUT''))\<rparr>,
         log_write Warn ''Invalid MJML input'' st)
      else if length (chars_of mjml) > 1024 * 1024 then
        (\<lparr>status = 413,
          payload = Failure (failure (lit ''MJML content is too large (max 1MB)'')
                               (lit ''CONTENT_TOO_LARGE''))\<rparr>,
         log_write Warn ''MJML content too large'' st)
      else
        let st1 = log_write Debug ''Rendering MJML'' st in
        case mjml2html (chars_of mjml) soft_options of
          Inl e \<Rightarrow>
            (\<lparr>status = 500,
              payload = Failure ((failure (lit ''Internal server error'') (lit ''INTERNAL_ERROR''))
                \<lparr>message := (if NODE_ENV env = Some (lit ''development'')
                              then Some (exn_message e) else None)\<rparr>)\<rparr>,
             log_write Err ''Unexpected error during rendering'' st1)
        | Inr r \<Rightarrow>
            if has_errors (out_errors r) then
              (\<lparr>status = 400,
                payload = Failure ((failure (lit ''MJML compilation failed'') (lit ''COMPILATION_ERROR''))
                  \<lparr>errors := Some (map_errors (out_errors r))\<rparr>)\<rparr>,
               log_write Warn ''MJML compilation errors'' st1)
            else if \<not> truthy (out_html r) \<or> typeof (out_html r) \<noteq> ''string'' then
              (\<lparr>status = 500,
                payload = Failure (failure (lit ''Failed to generate HTML'') (lit ''NO_OUTPUT''))\<rparr>,
               log_write Err ''No HTML generated'' st1)
            else
              (\<lparr>status = 200, payload = Html (out_html r)\<rparr>,
               log_write Info ''MJML rendered successfully'' st1))"

section \<open>POST /render-batch\<close>

text \<open>
  The route is registered with \<open>batchRenderSchema\<close>: both alternatives of an item
  require an object with a string \<open>mjml\<close>, and the handler's comment gives the body as
  \<open>{ items: Array<{ id?: string|number, mjml: string }> }\<close>. An item is modelled at that
  type; \<open>item_id\<close> is \<open>JUndefined\<close> when the item has no \<open>id\<close>.
\<close>

record item =
  item_id :: jsval
  item_mjml :: jsstring

text \<open>
  The callback of \<open>items.map\<close>. The \<open>try\<close> block resolves the id with
  \<open>item.id !== undefined ? item.id : index\<close>, the \<open>catch\<close> block with \<open>item.id ?? index\<close>.
\<close>

definition render_item :: "compiler \<Rightarrow> nat \<Rightarrow> item \<Rightarrow> server \<Rightarrow> item_result \<times> server" where
  "render_item mjml2html index it st =
     (let id = (if item_id it \<noteq> JUndefined then item_id it else JNum (of_nat index));
          mjml = item_mjml it in
      if length mjml > 1024 * 1024 then
        (\<lparr>r_id = id, r_success = False, r_html = None,
          r_error = Some (lit ''MJML content is too large (max 1MB)''),
          r_code = Some (lit ''CONTENT_TOO_LARGE''), r_errors = None\<rparr>, st)
      else
        case mjml2html mjml soft_options of
          Inl e \<Rightarrow>
            (\<lparr>r_id = (if item_id it = JUndefined \<or> item_id it = JNull
                      then JNum (of_nat index) else item_id it),
              r_success = False, r_html = None,
              r_error = Some (exn_message e),
              r_code = Some (lit ''PROCESSING_ERROR''), r_errors = None\<rparr>,
             log_write Err ''Batch item error'' st)
        | Inr r \<Rightarrow>
            if has_errors (out_errors r) then
              (\<lparr>r_id = id, r_success = False, r_html = None,
                r_error = Some (lit ''MJML compilation failed''),
                r_code = Some (lit ''COMPILATION_ERROR''),
                r_errors = Some (map_errors (out_errors r))\<rparr>, st)
            else
              (\<lparr>r_id = id, r_success = True, r_html = Some (out_html r),
                r_error = None, r_code = None, r_errors = None\<rparr>, st))"

text \<open>\<open>items.map\<close>: the callback runs on each item in order, with its position.\<close>

fun map_items :: "compiler \<Rightarrow> nat \<Rightarrow> item list \<Rightarrow> server \<Rightarrow> item_result list \<times> server" where
  "map_items mjml2html index [] st = ([], st)"
| "map_items mjml2html index (it # its) st =
     (let (r, st1) = render_item mjml2html index it st;
          (rs, st2) = map_items mjml2html (Suc index) its st1
      in (r # rs, st2))"

text \<open>
  The handler's \<open>try\<close> block; \<open>items\<close> is an array, so of
  \<open>!Array.isArray(items) || items.length === 0\<close> the second test decides. With items
  of the type above nothing in the block throws outside the callback's own \<open>try\<close>,
  so the outer \<open>catch\<close> block is given on its own, as a function of the exception.
\<close>

definition render_batch :: "compiler \<Rightarrow> server \<Rightarrow> item list \<Rightarrow> reply \<times> server" where
  "render_batch mjml2html st items =
     (if length items = 0 then
        (\<lparr>status = 400,
          payload = Failure (failure
            (lit ''items array is required and must contain at least 1 item'')
            (lit ''INVALID_INPUT''))\<rparr>, st)
      else
        let st1 = log_write Info ''Processing batch render'' st;
            (results, st2) = map_items mjml2html 0 items st1;
            successCount = length (filter r_success results);
            failureCount = length results - successCount;
            st3 = log_write Info ''Batch render completed'' st2
        in (\<lparr>status = 200,
             payload = Batch \<lparr>total = length results, success = successCount,
                              failed = failureCount\<rparr> results\<rparr>, st3))"

definition render_batch_catch :: "env \<Rightarrow> server \<Rightarrow> exn \<Rightarrow> reply \<times> server" where
  "render_batch_catch env st e =
     (\<lparr>status = 500,
       payload = Failure ((failure (lit ''Internal server error'') (lit ''INTERNAL_ERROR''))
         \<lparr>message := (if NODE_ENV env = Some (lit ''development'')
                       then Some (exn_message e) else None)\<rparr>)\<rparr>,
      log_write Err ''Unexpected error during batch rendering'' st)"

section \<open>The preHandler hook\<close>

record request =
  req_url :: jsstring
  req_method :: jsstring
  req_body :: jsval

text \<open>
  \<open>body && body.items && Array.isArray(body.items) && body.items.length > 100\<close>;
  \<open>None\<close> when the expression throws.
\<close>

definition too_many_items :: "jsval \<Rightarrow> bool option" where
  "too_many_items body =
     (if \<not> truthy body then Some False
      else case body_items body of
             None \<Rightarrow> None
           | Some its \<Rightarrow>
               Some (truthy its \<and> isArray its \<and>
                     (case its of JArr xs \<Rightarrow> length xs > 100 | _ \<Rightarrow> False)))"

text \<open>The hook answers the request itself (\<open>Some\<close>) or lets it continue (\<open>None\<close>).\<close>

definition preHandler :: "request \<Rightarrow> reply option" where
  "preHandler req =
     (if req_url req = lit ''/render-batch'' \<and> req_method req = lit ''POST'' then
        (case too_many_items (req_body req) of
           Some True \<Rightarrow>
             Some \<lparr>status = 413,
                   payload = Failure (failure (lit ''Too many items (max 100 at once)'')
                                        (lit ''TOO_MANY_ITEMS''))\<rparr>
         | Some False \<Rightarrow> None
         | None \<Rightarrow> None)
      else None)"

section \<open>The error handler\<close>

text \<open>The error object the framework hands to \<open>setErrorHandler\<close>.\<close>

record fastify_error =
  fe_message :: jsstring
  fe_statusCode :: "nat option"
  fe_code :: "jsstring option"

text \<open>\<open>a || b\<close> on a string and on an optional number or string.\<close>

definition or_str :: "jsstring \<Rightarrow> jsstring \<Rightarrow> jsstring" where
  "or_str a b = (if a \<noteq> [] then a else b)"

definition or_opt_str :: "jsstring option \<Rightarrow> jsstring \<Rightarrow> jsstring" where
  "or_opt_str a b = (case a of None \<Rightarrow> b | Some s \<Rightarrow> or_str s b)"

definition or_opt_num :: "nat option \<Rightarrow> nat \<Rightarrow> nat" where
  "or_opt_num a b = (case a of None \<Rightarrow> b | Some n \<Rightarrow> if n \<noteq> 0 then n else b)"

definition errorHandler :: "server \<Rightarrow> fastify_error \<Rightarrow> reply \<times> server" where
  "errorHandler st err =
     (let st1 = log_write Err ''Request error'' st in
      if fe_statusCode err = Some 400 \<and> fe_code err = Some (lit ''FST_ERR_VALIDATION'') then
        (\<lparr>status = 400,
          payload = Failure (failure (or_str (fe_message err) (lit ''Validation error''))
                               (lit ''INVALID_INPUT''))\<rparr>, st1)
      else if fe_statusCode err = Some 413 then
        (\<lparr>status = 413,
          payload = Failure (failure (or_str (fe_message err) (lit ''Payload too large''))
                               (lit ''CONTENT_TOO_LARGE''))\<rparr>, st1)
      else
        (\<lparr>status = or_opt_num (fe_statusCode err) 500,
          payload = Failure ((failure (or_str (fe_message err) (lit ''Internal server error''))
                                (or_opt_str (fe_code err) (lit ''INTERNAL_ERROR'')))
            \<lparr>statusCode := Some (or_opt_num (fe_statusCode err) 500)\<rparr>)\<rparr>, st1))"

section \<open>The request lifecycle of POST /render-batch\<close>

text \<open>
  The framework validates the body against the route's schema, then runs the hooks
  registered under \<open>'preHandler'\<close>, then the handler; a validation error goes to the
  error handler, and a hook that sends a reply ends the request. The schema validator
  belongs to the framework and is a parameter: it rejects the body with an error or
  hands over the items.
\<close>

type_synonym validator = "jsval \<Rightarrow> fastify_error + item list"

definition post_render_batch :: "validator \<Rightarrow> compiler \<Rightarrow> server \<Rightarrow> request \<Rightarrow> reply \<times> server" where
  "post_render_batch validate mjml2html st req =
     (case validate (req_body req) of
        Inl err \<Rightarrow> errorHandler st err
      | Inr items \<Rightarrow>
          (case preHandler req of
             Some r \<Rightarrow> (r, st)
           | None \<Rightarrow> render_batch mjml2html st items))"

section \<open>Notions of the specification\<close>

text \<open>
  The byte length of a string, which the specification's size limit speaks of: the size
  of its UTF-8 encoding. A surrogate pair takes four bytes, a lone surrogate the three
  of the replacement character.
\<close>

definition unit_bytes :: "16 word \<Rightarrow> nat" where
  "unit_bytes u = (if u < 0x80 then 1 else if u < 0x800 then 2 else 3)"

fun utf8_length :: "jsstring \<Rightarrow> nat" where
  "utf8_length [] = 0"
| "utf8_length [u] = unit_bytes u"
| "utf8_length (u # v # us) =
     (if 0xD800 \<le> u \<and> u < 0xDC00 \<and> 0xDC00 \<le> v \<and> v < 0xE000
      then 4 + utf8_length us
      else unit_bytes u + utf8_length (v # us))"

text \<open>
  The ItemResult that embeds a reply of /render under an id, as the specification
  describes the per-item result: the html on success, the envelope's error, code and
  diagnostics on failure.
\<close>

definition as_item_result :: "jsval \<Rightarrow> reply \<Rightarrow> item_result" where
  "as_item_result i rp =
     (case payload rp of
        Html h \<Rightarrow> \<lparr>r_id = i, r_success = True, r_html = Some h,
                   r_error = None, r_code = None, r_errors = None\<rparr>
      | Failure e \<Rightarrow> \<lparr>r_id = i, r_success = False, r_html = None,
                      r_error = Some (error e), r_code = Some (code e), r_errors = errors e\<rparr>
      | Batch s rs \<Rightarrow> \<lparr>r_id = i, r_success = False, r_html = None,
                       r_error = None, r_code = None, r_errors = None\<rparr>)"

text \<open>The results array of a batch reply.\<close>

definition results_of :: "reply \<Rightarrow> item_result list" where
  "results_of rp = (case payload rp of Batch s rs \<Rightarrow> rs | _ \<Rightarrow> [])"

text \<open>The \<open>code\<close> field of an error envelope; \<open>None\<close> for a reply that is no envelope.\<close>

definition reply_code :: "reply \<Rightarrow> jsstring option" where
  "reply_code rp = (case payload rp of Failure e \<Rightarrow> Some (code e) | _ \<Rightarrow> None)"

section \<open>Sample inputs\<close>

text \<open>
  A compiler for concrete runs: it throws on markup that contains \<open>!\<close>, reports one
  diagnostic together with partial HTML on markup that contains \<open>?\<close>, returns neither
  diagnostics nor HTML on markup that contains \<open>#\<close>, and otherwise returns the markup
  as HTML.
\<close>

definition sample_error :: mjml_error where
  "sample_error = \<lparr>d_line = JNum 3, d_message = JStr (lit ''Element mj-invalid does not exist''),
                    d_tagName = JStr (lit ''mj-invalid''),
                    formattedMessage = JStr (lit ''Line 3 (mj-invalid)'')\<rparr>"

definition sample_mjml2html :: compiler where
  "sample_mjml2html m opts =
     (if 0x21 \<in> set m then Inl (Exn (lit ''Malformed MJML''))
      else if 0x3F \<in> set m then
        Inr \<lparr>out_html = JStr (lit ''<html>partial</html>''), out_errors = Some [sample_error]\<rparr>
      else if 0x23 \<in> set m then Inr \<lparr>out_html = JUndefined, out_errors = Some []\<rparr>
      else Inr \<lparr>out_html = JStr m, out_errors = Some []\<rparr>)"

definition production :: env where
  "production = \<lparr>NODE_ENV = Some (lit ''production'')\<rparr>"

definition development :: env where
  "development = \<lparr>NODE_ENV = Some (lit ''development'')\<rparr>"

definition idle :: server where
  "idle = \<lparr>log = []\<rparr>"

definition sample_items :: "item list" where
  "sample_items =
     [\<lparr>item_id = JStr (lit ''a''), item_mjml = lit ''<mjml>one</mjml>''\<rparr>,
      \<lparr>item_id = JUndefined, item_mjml = lit ''<mjml>!</mjml>''\<rparr>,
      \<lparr>item_id = JNum 7, item_mjml = lit ''<mjml>?</mjml>''\<rparr>]"

text \<open>
  A validator for concrete runs: it demands what both alternatives of
  \<open>batchRenderSchema\<close> demand, a non-empty array of objects with a string \<open>mjml\<close>.
  It leaves ids as they are; what the route's validation does with an id is given with
  the routes below.
\<close>

fun to_item :: "jsval \<Rightarrow> item option" where
  "to_item (JObj fs) =
     (case field fs (lit ''mjml'') of
        JStr s \<Rightarrow> Some \<lparr>item_id = field fs (lit ''id''), item_mjml = s\<rparr>
      | _ \<Rightarrow> None)"
| "to_item v = None"

definition validation_error :: fastify_error where
  "validation_error = \<lparr>fe_message = lit ''body/items/0 must have required property mjml'',
                        fe_statusCode = Some 400, fe_code = Some (lit ''FST_ERR_VALIDATION'')\<rparr>"

definition body_too_large :: fastify_error where
  "body_too_large = \<lparr>fe_message = lit ''Request body is too large'',
                      fe_statusCode = Some 413, fe_code = Some (lit ''FST_ERR_CTP_BODY_TOO_LARGE'')\<rparr>"

definition sample_validator :: validator where
  "sample_validator b =
     (case b of
        JObj fs \<Rightarrow>
          (case field fs (lit ''items'') of
             JArr xs \<Rightarrow>
               (if xs = [] then Inl validation_error
                else case those (map to_item xs) of
                       None \<Rightarrow> Inl validation_error
                     | Some its \<Rightarrow> Inr its)
           | _ \<Rightarrow> Inl validation_error)
      | _ \<Rightarrow> Inl validation_error)"

text \<open>
  Two requests with 101 items each: one whose items have no \<open>mjml\<close>, and one with
  well-formed items whose URL carries a query string.
\<close>

definition items_without_mjml :: request where
  "items_without_mjml =
     \<lparr>req_url = lit ''/render-batch'', req_method = lit ''POST'',
      req_body = JObj [(lit ''items'', JArr (replicate 101 (JObj [])))]\<rparr>"

definition items_with_query :: request where
  "items_with_query =
     \<lparr>req_url = lit ''/render-batch?v=1'', req_method = lit ''POST'',
      req_body = JObj [(lit ''items'',
                   JArr (replicate 101 (JObj [(lit ''mjml'', JStr (lit ''<mjml></mjml>''))])))]\<rparr>"

section \<open>The routes as the server runs them\<close>

text \<open>
  The framework reads the body first and refuses a payload of more than \<open>bodyLimit\<close>
  bytes with an error of status 413. \<open>server.js\<close> builds the server without a
  \<open>bodyLimit\<close> option, so the framework's default of 1 MiB applies.
\<close>

definition bodyLimit :: nat where
  "bodyLimit = 1048576"

text \<open>
  The framework reports a schema violation as an error of status 400 and code
  FST_ERR_VALIDATION, with the path of the value in its message; \<open>digits\<close> writes an
  index in decimal.
\<close>

fun digits :: "nat \<Rightarrow> jsstring" where
  "digits n = (if n < 10 then [of_nat (48 + n)] else digits (n div 10) @ [of_nat (48 + n mod 10)])"

definition schema_error :: "jsstring \<Rightarrow> fastify_error" where
  "schema_error m = \<lparr>fe_message = m, fe_statusCode = Some 400,
                      fe_code = Some (lit ''FST_ERR_VALIDATION'')\<rparr>"

text \<open>
  A client of /render-batch sends the body of the handler's comment: items with a
  string \<open>mjml\<close> and an \<open>id\<close> that is absent, a string or a number. Numbers are the
  numbers the body parses to.
\<close>

datatype sent_id = NoId | StrId jsstring | NumId rat

record sent_item =
  s_id :: sent_id
  s_mjml :: jsstring

fun sent_value :: "sent_id \<Rightarrow> jsval" where
  "sent_value NoId = JUndefined"
| "sent_value (StrId s) = JStr s"
| "sent_value (NumId n) = JNum n"

text \<open>
  \<open>batchRenderSchema\<close> as the framework's validator applies it. The validator coerces
  types: a value that fails a \<open>type\<close> keyword and can be converted is converted in
  place, and it stays converted even when the alternative that asked for the type fails
  in the end. The conversions are the language's and are parameters: \<open>to_string n\<close> is
  \<open>"" + n\<close>, and \<open>to_number s\<close> is \<open>+s\<close>, which is no number, a finite number or an
  infinity (with the flag set for \<open>-Infinity\<close>).
\<close>

datatype reading = NotANumber | Finite rat | Infinite bool

text \<open>
  \<open>{ type: 'string' }\<close> and \<open>{ type: 'number' }\<close> on an id, which is sent as a string
  or a number: the outcome and the value the id has afterwards. A number becomes the
  string \<open>"" + n\<close>; a non-empty string that reads as a number becomes that number.
\<close>

fun type_string :: "(rat \<Rightarrow> jsstring) \<Rightarrow> jsval \<Rightarrow> bool \<times> jsval" where
  "type_string to_string (JStr s) = (True, JStr s)"
| "type_string to_string (JNum n) = (True, JStr (to_string n))"
| "type_string to_string (JInfinity b) = (True, JStr (lit (if b then ''-Infinity'' else ''Infinity'')))"
| "type_string to_string v = (False, v)"

fun type_number :: "(jsstring \<Rightarrow> reading) \<Rightarrow> jsval \<Rightarrow> bool \<times> jsval" where
  "type_number to_number (JNum n) = (True, JNum n)"
| "type_number to_number (JInfinity b) = (True, JInfinity b)"
| "type_number to_number (JStr s) =
     (if s = [] then (False, JStr s)
      else case to_number s of
             NotANumber \<Rightarrow> (False, JStr s)
           | Finite n \<Rightarrow> (True, JNum n)
           | Infinite b \<Rightarrow> (True, JInfinity b))"
| "type_number to_number v = (False, v)"

text \<open>\<open>oneOf\<close> of two alternatives: exactly one of them accepts.\<close>

definition oneOf :: "bool \<Rightarrow> bool \<Rightarrow> bool" where
  "oneOf a b = (a \<noteq> b)"

text \<open>
  \<open>id: { oneOf: [{ type: 'string' }, { type: 'number' }] }\<close>: the second alternative sees
  what the first has made of the id.
\<close>

definition id_schema :: "(jsstring \<Rightarrow> reading) \<Rightarrow> (rat \<Rightarrow> jsstring) \<Rightarrow> jsval \<Rightarrow> bool \<times> jsval" where
  "id_schema to_number to_string v =
     (let (a, v1) = type_string to_string v;
          (b, v2) = type_number to_number v1
      in (oneOf a b, v2))"

text \<open>
  The first alternative of an item, \<open>required: ['id', 'mjml']\<close> with the id schema
  above; the \<open>mjml\<close> sent is a string. The second alternative, \<open>required: ['mjml']\<close>,
  accepts every item sent, so an item is valid exactly when the first alternative
  refuses it, and it reaches the handler with the id the first alternative has left.
\<close>

definition item_with_id :: "(jsstring \<Rightarrow> reading) \<Rightarrow> (rat \<Rightarrow> jsstring) \<Rightarrow> jsval \<Rightarrow> bool \<times> jsval" where
  "item_with_id to_number to_string v =
     (if v = JUndefined then (False, v) else id_schema to_number to_string v)"

definition validate_item :: "(jsstring \<Rightarrow> reading) \<Rightarrow> (rat \<Rightarrow> jsstring) \<Rightarrow> sent_item \<Rightarrow> item option" where
  "validate_item to_number to_string x =
     (let (a, v) = item_with_id to_number to_string (sent_value (s_id x));
          b = True
      in if oneOf a b then Some \<lparr>item_id = v, item_mjml = s_mjml x\<rparr> else None)"

text \<open>The items in order, up to the first that is invalid; \<open>minItems: 1\<close>.\<close>

fun validate_from :: "(jsstring \<Rightarrow> reading) \<Rightarrow> (rat \<Rightarrow> jsstring) \<Rightarrow> nat \<Rightarrow> sent_item list
                        \<Rightarrow> fastify_error + item list" where
  "validate_from to_number to_string k [] = Inr []"
| "validate_from to_number to_string k (x # xs) =
     (case validate_item to_number to_string x of
        None \<Rightarrow> Inl (schema_error
                  (lit ''body/items/'' @ digits k @ lit '' must match exactly one schema in oneOf''))
      | Some it \<Rightarrow>
          (case validate_from to_number to_string (Suc k) xs of
             Inl e \<Rightarrow> Inl e
           | Inr its \<Rightarrow> Inr (it # its)))"

definition validate_batch :: "(jsstring \<Rightarrow> reading) \<Rightarrow> (rat \<Rightarrow> jsstring) \<Rightarrow> sent_item list
                        \<Rightarrow> fastify_error + item list" where
  "validate_batch to_number to_string sent =
     (if length sent < 1 then Inl (schema_error (lit ''body/items must NOT have fewer than 1 items''))
      else validate_from to_number to_string 0 sent)"

text \<open>
  The request to the URL /render-batch: body limit, schema validation, the hook on the
  validated body, the handler. \<open>bytes\<close> is the size of the payload.
\<close>

definition item_json :: "item \<Rightarrow> jsval" where
  "item_json it =
     JObj ((if item_id it = JUndefined then [] else [(lit ''id'', item_id it)])
           @ [(lit ''mjml'', JStr (item_mjml it))])"

definition serve_batch :: "(jsstring \<Rightarrow> reading) \<Rightarrow> (rat \<Rightarrow> jsstring) \<Rightarrow> compiler \<Rightarrow> server
                             \<Rightarrow> nat \<Rightarrow> sent_item list \<Rightarrow> reply \<times> server" where
  "serve_batch to_number to_string mjml2html st bytes sent =
     (if bytes > bodyLimit then errorHandler st body_too_large
      else case validate_batch to_number to_string sent of
             Inl err \<Rightarrow> errorHandler st err
           | Inr items \<Rightarrow>
               (case preHandler \<lparr>req_url = lit ''/render-batch'', req_method = lit ''POST'',
                                 req_body = JObj [(lit ''items'', JArr (map item_json items))]\<rparr> of
                  Some r \<Rightarrow> (r, st)
                | None \<Rightarrow> render_batch mjml2html st items))"

text \<open>
  The request to /render with a body \<open>{ mjml: m }\<close>, which \<open>renderSchema\<close> accepts as
  it is.
\<close>

definition serve_render :: "compiler \<Rightarrow> env \<Rightarrow> server \<Rightarrow> nat \<Rightarrow> jsstring \<Rightarrow> reply \<times> server" where
  "serve_render mjml2html env st bytes m =
     (if bytes > bodyLimit then errorHandler st body_too_large
      else render mjml2html env st [(lit ''mjml'', JStr m)])"

text \<open>
  A lower bound for the number of bytes of a JSON text that denotes a value: a string
  takes its UTF-8 bytes and two quotes at least, since an escape is never shorter than
  the character it stands for; separators are not counted. \<open>batch_body\<close> and
  \<open>render_body\<close> are the bodies a client sends.
\<close>

fun json_size :: "jsval \<Rightarrow> nat" where
  "json_size JUndefined = 0"
| "json_size JNull = 4"
| "json_size (JBool b) = (if b then 4 else 5)"
| "json_size (JNum n) = 1"
| "json_size (JInfinity b) = 0"
| "json_size (JStr s) = 2 + utf8_length s"
| "json_size (JArr xs) = 2 + sum_list (map json_size xs)"
| "json_size (JObj fs) = 2 + sum_list (map (\<lambda>p. 3 + utf8_length (fst p) + json_size (snd p)) fs)"

definition sent_json :: "sent_item \<Rightarrow> jsval" where
  "sent_json x =
     JObj ((case s_id x of NoId \<Rightarrow> [] | StrId s \<Rightarrow> [(lit ''id'', JStr s)]
                          | NumId n \<Rightarrow> [(lit ''id'', JNum n)])
           @ [(lit ''mjml'', JStr (s_mjml x))])"

definition batch_body :: "sent_item list \<Rightarrow> jsval" where
  "batch_body sent = JObj [(lit ''items'', JArr (map sent_json sent))]"

definition render_body :: "jsstring \<Rightarrow> jsval" where
  "render_body m = JObj [(lit ''mjml'', JStr m)]"

section \<open>Sample requests\<close>

text \<open>
  Conversions for concrete runs. They agree with the language on strings of decimal
  digits and on natural numbers, which is all the sample requests hold; every other
  string is taken for no number.
\<close>

fun read_digits :: "nat \<Rightarrow> jsstring \<Rightarrow> nat option" where
  "read_digits acc [] = Some acc"
| "read_digits acc (u # us) =
     (if 0x30 \<le> u \<and> u \<le> 0x39 then read_digits (10 * acc + (unat u - 48)) us else None)"

definition sample_to_number :: "jsstring \<Rightarrow> reading" where
  "sample_to_number s =
     (case read_digits 0 s of None \<Rightarrow> NotANumber | Some n \<Rightarrow> Finite (of_nat n))"

definition sample_to_string :: "rat \<Rightarrow> jsstring" where
  "sample_to_string n = digits (nat \<lfloor>n\<rfloor>)"




definition oversized_batch :: "sent_item list" where
  "oversized_batch =
     [\<lparr>s_id = NoId, s_mjml = replicate 1048577 0x78\<rparr>,
      \<lparr>s_id = NoId, s_mjml = lit ''<mjml>one</mjml>''\<rparr>]"

section \<open>Properties of the batch handler\<close>

text \<open>The reply of the callback does not depend on the log it appends to.\<close>

lemma render_item_state:
  "fst (render_item mjml2html i it st) = fst (render_item mjml2html i it st')"
  by (simp add: render_item_def Let_def split: sum.splits)

lemma length_map_items:
  "length (fst (map_items mjml2html i its st)) = length its"
  by (induction its arbitrary: i st) (auto simp: split_def Let_def)

lemma nth_map_items:
  "k < length its \<Longrightarrow>
   fst (map_items mjml2html i its st) ! k = fst (render_item mjml2html (i + k) (its ! k) st')"
proof (induction its arbitrary: i st k)
  case Nil
  then show ?case by simp
next
  case (Cons a its)
  show ?case
  proof (cases k)
    case 0
    then show ?thesis
      using render_item_state [of mjml2html i a st st'] by (simp add: split_def Let_def)
  next
    case (Suc j)
    then have "j < length its" using Cons.prems by simp
    from Cons.IH [OF this, of "Suc i"] Suc show ?thesis
      by (simp add: split_def Let_def)
  qed
qed

lemma render_batch_reply:
  assumes "items \<noteq> []"
  shows "fst (render_batch mjml2html st items) =
           \<lparr>status = 200,
            payload = Batch
              \<lparr>total = length items,
               success = length (filter r_success
                 (fst (map_items mjml2html 0 items (log_write Info ''Processing batch render'' st)))),
               failed = length items - length (filter r_success
                 (fst (map_items mjml2html 0 items (log_write Info ''Processing batch render'' st))))\<rparr>
              (fst (map_items mjml2html 0 items (log_write Info ''Processing batch render'' st)))\<rparr>"
  using assms by (simp add: render_batch_def Let_def split_def length_map_items)

lemma results_of_render_batch:
  assumes "items \<noteq> []"
  shows "results_of (fst (render_batch mjml2html st items)) =
           fst (map_items mjml2html 0 items (log_write Info ''Processing batch render'' st))"
  by (simp add: results_of_def render_batch_reply [OF assms])

lemma nth_results:
  assumes "k < length items"
  shows "results_of (fst (render_batch mjml2html st items)) ! k =
           fst (render_item mjml2html k (items ! k) st')"
proof -
  from assms have ne: "items \<noteq> []" by auto
  show ?thesis
    using nth_map_items [OF assms, of mjml2html 0 _ st']
    by (simp add: results_of_render_batch [OF ne])
qed

text \<open>
  C1 (batch isolation). For every non-empty batch, whatever the compiler does on each
  item: the handler answers 200 with one result per item, in the order of the items; the
  result of an item that is too large, on which the compiler throws, or for which it
  reports diagnostics has \<open>success = false\<close> and the code of that failure (with the
  exception's message for a throw), and an item that compiles without diagnostics has
  \<open>success = true\<close>; the result at a position is the same in every batch of the same
  length that has the same item at that position, so no item affects another, and no
  exception of an item reaches the handler's caller.
\<close>

theorem batch_isolation:
  assumes "items \<noteq> []"
  shows "status (fst (render_batch mjml2html st items)) = 200
       \<and> length (results_of (fst (render_batch mjml2html st items))) = length items
       \<and> (\<forall>k < length items.
            (length (item_mjml (items ! k)) > 1024 * 1024 \<longrightarrow>
               \<not> r_success (results_of (fst (render_batch mjml2html st items)) ! k)
             \<and> r_code (results_of (fst (render_batch mjml2html st items)) ! k)
                 = Some (lit ''CONTENT_TOO_LARGE''))
          \<and> (\<forall>e. length (item_mjml (items ! k)) \<le> 1024 * 1024
                 \<and> mjml2html (item_mjml (items ! k)) soft_options = Inl e \<longrightarrow>
               \<not> r_success (results_of (fst (render_batch mjml2html st items)) ! k)
             \<and> r_code (results_of (fst (render_batch mjml2html st items)) ! k)
                 = Some (lit ''PROCESSING_ERROR'')
             \<and> r_error (results_of (fst (render_batch mjml2html st items)) ! k)
                 = Some (exn_message e))
          \<and> (\<forall>r. length (item_mjml (items ! k)) \<le> 1024 * 1024
                 \<and> mjml2html (item_mjml (items ! k)) soft_options = Inr r
                 \<and> has_errors (out_errors r) \<longrightarrow>
               \<not> r_success (results_of (fst (render_batch mjml2html st items)) ! k)
             \<and> r_code (results_of (fst (render_batch mjml2html st items)) ! k)
                 = Some (lit ''COMPILATION_ERROR''))
          \<and> (\<forall>r. length (item_mjml (items ! k)) \<le> 1024 * 1024
                 \<and> mjml2html (item_mjml (items ! k)) soft_options = Inr r
                 \<and> \<not> has_errors (out_errors r) \<longrightarrow>
               r_success (results_of (fst (render_batch mjml2html st items)) ! k)))
       \<and> (\<forall>items' st' j. length items' = length items \<and> j < length items
                 \<and> items' ! j = items ! j \<longrightarrow>
               results_of (fst (render_batch mjml2html st' items')) ! j
                 = results_of (fst (render_batch mjml2html st items)) ! j)"
proof (intro conjI allI impI)
  show "status (fst (render_batch mjml2html st items)) = 200"
    by (simp add: render_batch_reply [OF assms])
  show "length (results_of (fst (render_batch mjml2html st items))) = length items"
    by (simp add: results_of_render_batch [OF assms] length_map_items)
next
  fix k assume k: "k < length items"
  let ?r = "results_of (fst (render_batch mjml2html st items)) ! k"
  have r: "?r = fst (render_item mjml2html k (items ! k) st)"
    by (rule nth_results [OF k])
  {
    assume "length (item_mjml (items ! k)) > 1024 * 1024"
    then show "\<not> r_success ?r" "r_code ?r = Some (lit ''CONTENT_TOO_LARGE'')"
      by (simp_all add: r render_item_def Let_def)
  }
  {
    fix e
    assume "length (item_mjml (items ! k)) \<le> 1024 * 1024
          \<and> mjml2html (item_mjml (items ! k)) soft_options = Inl e"
    then show "\<not> r_success ?r" "r_code ?r = Some (lit ''PROCESSING_ERROR'')"
        "r_error ?r = Some (exn_message e)"
      by (simp_all add: r render_item_def Let_def)
  }
  {
    fix cr
    assume "length (item_mjml (items ! k)) \<le> 1024 * 1024
          \<and> mjml2html (item_mjml (items ! k)) soft_options = Inr cr
          \<and> has_errors (out_errors cr)"
    then show "\<not> r_success ?r" "r_code ?r = Some (lit ''COMPILATION_ERROR'')"
      by (simp_all add: r render_item_def Let_def)
  }
  {
    fix cr
    assume "length (item_mjml (items ! k)) \<le> 1024 * 1024
          \<and> mjml2html (item_mjml (items ! k)) soft_options = Inr cr
          \<and> \<not> has_errors (out_errors cr)"
    then show "r_success ?r"
      by (simp add: r render_item_def Let_def)
  }
next
  fix items' st' j
  assume h: "length items' = length items \<and> j < length items \<and> items' ! j = items ! j"
  then have j': "j < length items'" and j: "j < length items" by simp_all
  show "results_of (fst (render_batch mjml2html st' items')) ! j
          = results_of (fst (render_batch mjml2html st items)) ! j"
    using nth_results [OF j', of mjml2html st' st] nth_results [OF j, of mjml2html st st] h
    by simp
qed

theorem batch_isolation_witness:
  "sample_items \<noteq> []
   \<and> status (fst (render_batch sample_mjml2html idle sample_items)) = 200
   \<and> length (results_of (fst (render_batch sample_mjml2html idle sample_items))) = length sample_items
   \<and> 1 < length sample_items
   \<and> length (item_mjml (sample_items ! 1)) \<le> 1024 * 1024
   \<and> sample_mjml2html (item_mjml (sample_items ! 1)) soft_options = Inl (Exn (lit ''Malformed MJML''))
   \<and> \<not> r_success (results_of (fst (render_batch sample_mjml2html idle sample_items)) ! 1)
   \<and> r_code (results_of (fst (render_batch sample_mjml2html idle sample_items)) ! 1)
        = Some (lit ''PROCESSING_ERROR'')
   \<and> r_success (results_of (fst (render_batch sample_mjml2html idle sample_items)) ! 0)"
proof -
  have ne: "sample_items \<noteq> []"
    by (simp add: sample_items_def)
  have k: "1 < length sample_items" "0 < length sample_items"
    by (simp_all add: sample_items_def)
  have m: "length (item_mjml (sample_items ! 1)) \<le> 1024 * 1024
         \<and> sample_mjml2html (item_mjml (sample_items ! 1)) soft_options
             = Inl (Exn (lit ''Malformed MJML''))"
    by (simp add: sample_items_def sample_mjml2html_def lit_def)
  have m0: "length (item_mjml (sample_items ! 0)) \<le> 1024 * 1024
         \<and> sample_mjml2html (item_mjml (sample_items ! 0)) soft_options
             = Inr \<lparr>out_html = JStr (lit ''<mjml>one</mjml>''), out_errors = Some []\<rparr>
         \<and> \<not> has_errors (out_errors \<lparr>out_html = JStr (lit ''<mjml>one</mjml>''), out_errors = Some []\<rparr>)"
    by (simp add: sample_items_def sample_mjml2html_def lit_def has_errors_def)
  note t = batch_isolation [OF ne, of sample_mjml2html idle]
  from t have a: "status (fst (render_batch sample_mjml2html idle sample_items)) = 200"
    by (rule conjunct1)
  from t have b: "length (results_of (fst (render_batch sample_mjml2html idle sample_items)))
                    = length sample_items"
    by blast
  from t k(1) m
  have c: "\<not> r_success (results_of (fst (render_batch sample_mjml2html idle sample_items)) ! 1)
         \<and> r_code (results_of (fst (render_batch sample_mjml2html idle sample_items)) ! 1)
             = Some (lit ''PROCESSING_ERROR'')"
    by blast
  from t k(2) m0
  have d: "r_success (results_of (fst (render_batch sample_mjml2html idle sample_items)) ! 0)"
    by blast
  from ne a b k(1) m c d show ?thesis by blast
qed

text \<open>
  C3 (batch summary). Every reply of the batch handler that carries a summary has
  \<open>total\<close> equal to the number of submitted items, \<open>success\<close> equal to the number of
  results with \<open>success = true\<close>, \<open>failed\<close> equal to the number of results with
  \<open>success = false\<close>, and \<open>success + failed = total\<close>.
\<close>

theorem batch_summary_invariant:
  assumes "payload (fst (render_batch mjml2html st items)) = Batch s rs"
  shows "total s = length items
       \<and> success s = length (filter r_success rs)
       \<and> failed s = length (filter (\<lambda>r. \<not> r_success r) rs)
       \<and> success s + failed s = total s"
proof -
  have ne: "items \<noteq> []"
  proof
    assume "items = []"
    with assms show False by (simp add: render_batch_def failure_def)
  qed
  let ?rs = "fst (map_items mjml2html 0 items (log_write Info ''Processing batch render'' st))"
  from assms have rs: "rs = ?rs"
    and s: "s = \<lparr>total = length items, success = length (filter r_success ?rs),
                failed = length items - length (filter r_success ?rs)\<rparr>"
    by (auto simp: render_batch_reply [OF ne])
  have len: "length rs = length items"
    by (simp add: rs length_map_items)
  have compl: "length (filter r_success rs) + length (filter (\<lambda>r. \<not> r_success r) rs) = length rs"
    by (rule sum_length_filter_compl)
  from s rs have t: "total s = length items" "success s = length (filter r_success rs)"
    "failed s = length items - length (filter r_success rs)"
    by simp_all
  from t len compl show ?thesis by simp
qed

theorem batch_summary_invariant_witness:
  "payload (fst (render_batch sample_mjml2html idle sample_items))
     = Batch \<lparr>total = 3, success = 1, failed = 2\<rparr>
         (results_of (fst (render_batch sample_mjml2html idle sample_items)))
   \<and> total \<lparr>total = 3, success = 1, failed = 2\<rparr> = length sample_items
   \<and> success \<lparr>total = 3, success = 1, failed = 2\<rparr>
       = length (filter r_success (results_of (fst (render_batch sample_mjml2html idle sample_items))))
   \<and> failed \<lparr>total = 3, success = 1, failed = 2\<rparr>
       = length (filter (\<lambda>r. \<not> r_success r)
           (results_of (fst (render_batch sample_mjml2html idle sample_items))))"
proof -
  have e: "payload (fst (render_batch sample_mjml2html idle sample_items))
     = Batch \<lparr>total = 3, success = 1, failed = 2\<rparr>
         (results_of (fst (render_batch sample_mjml2html idle sample_items)))"
    by (simp add: render_batch_def results_of_def sample_items_def sample_mjml2html_def
        render_item_def has_errors_def idle_def lit_def Let_def)
  from batch_summary_invariant [OF e] e show ?thesis by simp
qed

section \<open>Ids through the route\<close>















section \<open>Properties of the single render handler\<close>

text \<open>
  C9 (determinism). With the compiler a function of the markup and the options, the
  reply of /render to a body is the same whatever the server has logged before: the
  handler reads nothing that earlier requests have written. The status, the code and
  the html are moreover the same in every environment; only the envelope's \<open>message\<close>
  follows \<open>NODE_ENV\<close>.
\<close>

theorem render_deterministic:
  "fst (render mjml2html env st1 body) = fst (render mjml2html env st2 body)
   \<and> status (fst (render mjml2html env1 st1 body)) = status (fst (render mjml2html env2 st2 body))
   \<and> reply_code (fst (render mjml2html env1 st1 body))
       = reply_code (fst (render mjml2html env2 st2 body))
   \<and> (payload (fst (render mjml2html env1 st1 body)) = Html h)
       = (payload (fst (render mjml2html env2 st2 body)) = Html h)"
  by (simp add: render_def reply_code_def failure_def Let_def split: sum.splits)

theorem render_deterministic_witness:
  "fst (render sample_mjml2html production idle [(lit ''mjml'', JStr (lit ''<mjml>!</mjml>''))])
     = fst (render sample_mjml2html production (log_write Info ''MJML rendered successfully'' idle)
              [(lit ''mjml'', JStr (lit ''<mjml>!</mjml>''))])
   \<and> status (fst (render sample_mjml2html production idle
                     [(lit ''mjml'', JStr (lit ''<mjml>!</mjml>''))]))
       = status (fst (render sample_mjml2html development idle
                        [(lit ''mjml'', JStr (lit ''<mjml>!</mjml>''))]))"
  using render_deterministic
          [of sample_mjml2html production idle "[(lit ''mjml'', JStr (lit ''<mjml>!</mjml>''))]"
              "log_write Info ''MJML rendered successfully'' idle" production development
              "JStr []"]
        render_deterministic
          [of sample_mjml2html production idle "[(lit ''mjml'', JStr (lit ''<mjml>!</mjml>''))]"
              idle production development "JStr []"]
  by blast

text \<open>
  C5 (compilation errors). When the markup is a non-empty string within the size limit
  and the compiler returns a non-empty list of diagnostics, /render answers 400 with code
  COMPILATION_ERROR and one entry per diagnostic, in order, each with the diagnostic's
  line, message and tag name; the reply is the error envelope, which has no html field,
  whatever HTML the compiler returned beside the diagnostics.
\<close>

theorem render_compilation_error:
  assumes "field body (lit ''mjml'') = JStr m" and "m \<noteq> []" and "length m \<le> 1024 * 1024"
    and "mjml2html m soft_options = Inr r" and "out_errors r = Some ds" and "ds \<noteq> []"
  shows "fst (render mjml2html env st body) =
           \<lparr>status = 400,
            payload = Failure \<lparr>error = lit ''MJML compilation failed'',
                               code = lit ''COMPILATION_ERROR'',
                               errors = Some (map_errors (Some ds)),
                               message = None, statusCode = None\<rparr>\<rparr>
       \<and> length (map_errors (Some ds)) = length ds
       \<and> (\<forall>i < length ds.
            d_line (map_errors (Some ds) ! i) = d_line (ds ! i)
          \<and> d_message (map_errors (Some ds) ! i) = d_message (ds ! i)
          \<and> d_tagName (map_errors (Some ds) ! i) = d_tagName (ds ! i))"
proof (intro conjI allI impI)
  from assms show "fst (render mjml2html env st body) =
           \<lparr>status = 400,
            payload = Failure \<lparr>error = lit ''MJML compilation failed'',
                               code = lit ''COMPILATION_ERROR'',
                               errors = Some (map_errors (Some ds)),
                               message = None, statusCode = None\<rparr>\<rparr>"
    by (simp add: render_def Let_def has_errors_def failure_def)
  show "length (map_errors (Some ds)) = length ds"
    by (simp add: map_errors_def)
next
  fix i assume "i < length ds"
  then show "d_line (map_errors (Some ds) ! i) = d_line (ds ! i)"
    "d_message (map_errors (Some ds) ! i) = d_message (ds ! i)"
    "d_tagName (map_errors (Some ds) ! i) = d_tagName (ds ! i)"
    by (simp_all add: map_errors_def)
qed

theorem render_compilation_error_witness:
  "field [(lit ''mjml'', JStr (lit ''<mjml>?</mjml>''))] (lit ''mjml'') = JStr (lit ''<mjml>?</mjml>'')
   \<and> lit ''<mjml>?</mjml>'' \<noteq> []
   \<and> length (lit ''<mjml>?</mjml>'') \<le> 1024 * 1024
   \<and> sample_mjml2html (lit ''<mjml>?</mjml>'') soft_options
       = Inr \<lparr>out_html = JStr (lit ''<html>partial</html>''), out_errors = Some [sample_error]\<rparr>
   \<and> fst (render sample_mjml2html production idle [(lit ''mjml'', JStr (lit ''<mjml>?</mjml>''))])
       = \<lparr>status = 400,
          payload = Failure \<lparr>error = lit ''MJML compilation failed'',
                             code = lit ''COMPILATION_ERROR'',
                             errors = Some (map_errors (Some [sample_error])),
                             message = None, statusCode = None\<rparr>\<rparr>
   \<and> length (map_errors (Some [sample_error])) = 1"
proof -
  have b: "field [(lit ''mjml'', JStr (lit ''<mjml>?</mjml>''))] (lit ''mjml'')
             = JStr (lit ''<mjml>?</mjml>'')"
    by (simp add: field_def)
  have n: "lit ''<mjml>?</mjml>'' \<noteq> []" and l: "length (lit ''<mjml>?</mjml>'') \<le> 1024 * 1024"
    by (simp_all add: lit_def)
  have c: "sample_mjml2html (lit ''<mjml>?</mjml>'') soft_options
       = Inr \<lparr>out_html = JStr (lit ''<html>partial</html>''), out_errors = Some [sample_error]\<rparr>"
    by (simp add: sample_mjml2html_def lit_def)
  have d: "out_errors \<lparr>out_html = JStr (lit ''<html>partial</html>''),
                       out_errors = Some [sample_error]\<rparr> = Some [sample_error]"
    and e: "[sample_error] \<noteq> []"
    by simp_all
  from render_compilation_error
         [where mjml2html = sample_mjml2html and env = production and st = idle, OF b n l c d e]
       b n l c
  show ?thesis by simp
qed

text \<open>
  The size check compares the number of code units. The byte length is never smaller,
  and for text outside ASCII it is larger.
\<close>

lemma utf8_length_Cons:
  "\<not> (0xD800 \<le> u \<and> u < 0xDC00) \<Longrightarrow> utf8_length (u # us) = unit_bytes u + utf8_length us"
  by (cases us) auto

lemma utf8_length_replicate_e_acute:
  "utf8_length (replicate n 0xE9) = 2 * n"
  by (induction n) (simp_all add: utf8_length_Cons unit_bytes_def)

lemma unit_bytes_pos: "1 \<le> unit_bytes u"
  by (simp add: unit_bytes_def)

lemma length_le_utf8_length: "length s \<le> utf8_length s"
proof (induction s rule: utf8_length.induct)
  case 1
  then show ?case by simp
next
  case (2 u)
  then show ?case using unit_bytes_pos [of u] by simp
next
  case (3 u v us)
  then show ?case using unit_bytes_pos [of u] by (auto split: if_splits)
qed

text \<open>
  A payload is at least as long as a markup it carries, so that a request with a markup
  of more than 1 MiB is over the body limit, and the error handler answers it 413
  CONTENT_TOO_LARGE before validation, hook, handler or compiler run.
\<close>

lemma utf8_length_replicate_x:
  "utf8_length (replicate n 0x78) = n"
  by (induction n) (simp_all add: utf8_length_Cons unit_bytes_def)

lemma json_size_field:
  "map_of fs k = Some v \<Longrightarrow> json_size v \<le> json_size (JObj fs)"
proof -
  assume "map_of fs k = Some v"
  then have "(k, v) \<in> set fs" by (rule map_of_SomeD)
  then have "3 + utf8_length k + json_size v
               \<in> set (map (\<lambda>p. 3 + utf8_length (fst p) + json_size (snd p)) fs)"
    by force
  then have "3 + utf8_length k + json_size v
               \<le> sum_list (map (\<lambda>p. 3 + utf8_length (fst p) + json_size (snd p)) fs)"
    by (rule member_le_sum_list) simp_all
  then show ?thesis by simp
qed

lemma json_size_element:
  "x \<in> set xs \<Longrightarrow> json_size x \<le> json_size (JArr xs)"
proof -
  assume "x \<in> set xs"
  then have "json_size x \<in> set (map json_size xs)" by simp
  then have "json_size x \<le> sum_list (map json_size xs)"
    by (rule member_le_sum_list) simp_all
  then show ?thesis by simp
qed

lemma markup_in_render_body:
  "utf8_length m \<le> json_size (render_body m)"
  by (simp add: render_body_def)

lemma markup_in_sent_json:
  "utf8_length (s_mjml x) \<le> json_size (sent_json x)"
  by (cases "s_id x") (simp_all add: sent_json_def)

lemma markup_in_batch_body:
  assumes "k < length sent"
  shows "utf8_length (s_mjml (sent ! k)) \<le> json_size (batch_body sent)"
proof -
  from assms have "sent_json (sent ! k) \<in> set (map sent_json sent)" by simp
  then have "json_size (sent_json (sent ! k)) \<le> json_size (JArr (map sent_json sent))"
    by (rule json_size_element)
  moreover have "json_size (JArr (map sent_json sent)) \<le> json_size (batch_body sent)"
    unfolding batch_body_def by (rule json_size_field [of _ "lit ''items''"]) simp
  ultimately show ?thesis
    using markup_in_sent_json [of "sent ! k"] by linarith
qed

lemma body_too_large_reply:
  "status (fst (errorHandler st body_too_large)) = 413"
  "reply_code (fst (errorHandler st body_too_large)) = Some (lit ''CONTENT_TOO_LARGE'')"
  "results_of (fst (errorHandler st body_too_large)) = []"
  by (simp_all add: errorHandler_def body_too_large_def reply_code_def results_of_def
      failure_def Let_def)

lemma oversized_render_rejected:
  assumes "utf8_length m > 1024 * 1024" and "json_size (render_body m) \<le> bytes"
  shows "fst (serve_render mjml2html env st bytes m) = fst (errorHandler st body_too_large)"
proof -
  from assms markup_in_render_body [of m] have "bytes > bodyLimit"
    by (simp add: bodyLimit_def)
  then show ?thesis by (simp add: serve_render_def)
qed

lemma oversized_batch_rejected:
  assumes "k < length sent" and "utf8_length (s_mjml (sent ! k)) > 1024 * 1024"
    and "json_size (batch_body sent) \<le> bytes"
  shows "fst (serve_batch to_number to_string mjml2html st bytes sent)
           = fst (errorHandler st body_too_large)"
proof -
  from assms markup_in_batch_body [OF assms(1)] have "bytes > bodyLimit"
    by (simp add: bodyLimit_def)
  then show ?thesis by (simp add: serve_batch_def)
qed

text \<open>
  C4 (size limit) does not hold of the code for the items of a batch. A batch whose
  first item is one byte over 1 MiB and whose second item is well-formed is over the
  body limit in every encoding: the whole request is answered 413 CONTENT_TOO_LARGE and
  there are no results, while the handler, handed the same items, would refuse the first
  with code CONTENT_TOO_LARGE and render the second. The callback's own check counts
  code units, moreover: handed 600000 times the letter U+00E9, 1200000 bytes, it
  renders them.
\<close>

theorem oversized_item_rejects_whole_batch:
  "bodyLimit < json_size (batch_body oversized_batch)
   \<and> json_size (batch_body oversized_batch) \<le> 1048700
   \<and> status (fst (serve_batch sample_to_number sample_to_string sample_mjml2html idle 1048700
                    oversized_batch)) = 413
   \<and> reply_code (fst (serve_batch sample_to_number sample_to_string sample_mjml2html idle 1048700
                        oversized_batch)) = Some (lit ''CONTENT_TOO_LARGE'')
   \<and> results_of (fst (serve_batch sample_to_number sample_to_string sample_mjml2html idle 1048700
                        oversized_batch)) = []
   \<and> validate_batch sample_to_number sample_to_string oversized_batch
       = Inr [\<lparr>item_id = JUndefined, item_mjml = replicate 1048577 0x78\<rparr>,
              \<lparr>item_id = JUndefined, item_mjml = lit ''<mjml>one</mjml>''\<rparr>]
   \<and> r_code (results_of (fst (render_batch sample_mjml2html idle
                [\<lparr>item_id = JUndefined, item_mjml = replicate 1048577 0x78\<rparr>,
                 \<lparr>item_id = JUndefined, item_mjml = lit ''<mjml>one</mjml>''\<rparr>])) ! 0)
       = Some (lit ''CONTENT_TOO_LARGE'')
   \<and> r_success (results_of (fst (render_batch sample_mjml2html idle
                [\<lparr>item_id = JUndefined, item_mjml = replicate 1048577 0x78\<rparr>,
                 \<lparr>item_id = JUndefined, item_mjml = lit ''<mjml>one</mjml>''\<rparr>])) ! 1)
   \<and> 1024 * 1024 < utf8_length (replicate 600000 0xE9)
   \<and> r_success (fst (render_item sample_mjml2html 0
                       \<lparr>item_id = JUndefined, item_mjml = replicate 600000 0xE9\<rparr> idle))"
proof -
  let ?items = "[\<lparr>item_id = JUndefined, item_mjml = replicate 1048577 0x78\<rparr>,
                 \<lparr>item_id = JUndefined, item_mjml = lit ''<mjml>one</mjml>''\<rparr>]"
  have j: "json_size (batch_body oversized_batch) = 1048627"
    by (simp add: batch_body_def oversized_batch_def sent_json_def utf8_length_replicate_x
        utf8_length_Cons unit_bytes_def lit_def)
  have b: "(1048700 :: nat) > bodyLimit"
    by (simp add: bodyLimit_def)
  then have s: "fst (serve_batch sample_to_number sample_to_string sample_mjml2html idle 1048700
                       oversized_batch) = fst (errorHandler idle body_too_large)"
    by (simp add: serve_batch_def)
  have v: "validate_batch sample_to_number sample_to_string oversized_batch = Inr ?items"
    by (simp add: validate_batch_def oversized_batch_def validate_item_def item_with_id_def
        oneOf_def)
  have k: "0 < length ?items" "1 < length ?items"
    by simp_all
  have c: "sample_mjml2html (lit ''<mjml>one</mjml>'') soft_options
             = Inr \<lparr>out_html = JStr (lit ''<mjml>one</mjml>''), out_errors = Some []\<rparr>"
    by (simp add: sample_mjml2html_def lit_def)
  have r0: "r_code (results_of (fst (render_batch sample_mjml2html idle ?items)) ! 0)
              = Some (lit ''CONTENT_TOO_LARGE'')"
    unfolding nth_results [OF k(1), of sample_mjml2html idle idle]
    by (simp add: render_item_def Let_def)
  have r1: "r_success (results_of (fst (render_batch sample_mjml2html idle ?items)) ! 1)"
    unfolding nth_results [OF k(2), of sample_mjml2html idle idle]
    by (simp add: render_item_def c has_errors_def Let_def) (simp add: lit_def)
  have u: "1024 * 1024 < utf8_length (replicate 600000 0xE9)"
    by (simp add: utf8_length_replicate_e_acute)
  have e: "sample_mjml2html (replicate 600000 0xE9) soft_options
             = Inr \<lparr>out_html = JStr (replicate 600000 0xE9), out_errors = Some []\<rparr>"
    by (simp add: sample_mjml2html_def)
  have h: "r_success (fst (render_item sample_mjml2html 0
                       \<lparr>item_id = JUndefined, item_mjml = replicate 600000 0xE9\<rparr> idle))"
    by (simp add: render_item_def e has_errors_def Let_def)
  from j b s v r0 r1 u h show ?thesis
    by (simp add: body_too_large_reply bodyLimit_def)
qed

section \<open>The batch callback against the single handler\<close>

text \<open>
  C2, as stated, fails: on the empty markup /render answers INVALID_INPUT without
  compiling, while the batch callback compiles it and here reports success; when the
  compiler returns neither diagnostics nor HTML, /render answers NO_OUTPUT and the
  callback reports success; when the compiler throws, the codes are INTERNAL_ERROR and
  PROCESSING_ERROR.
\<close>

theorem item_logic_differs_counterexample:
  "r_success (fst (render_item sample_mjml2html 0 \<lparr>item_id = JUndefined, item_mjml = []\<rparr> idle))
   \<and> reply_code (fst (render sample_mjml2html production idle [(lit ''mjml'', JStr [])]))
       = Some (lit ''INVALID_INPUT'')
   \<and> fst (render_item sample_mjml2html 0 \<lparr>item_id = JUndefined, item_mjml = []\<rparr> idle)
       \<noteq> as_item_result (JNum 0)
           (fst (render sample_mjml2html production idle [(lit ''mjml'', JStr [])]))
   \<and> r_success (fst (render_item sample_mjml2html 0
                        \<lparr>item_id = JUndefined, item_mjml = lit ''<mjml>#</mjml>''\<rparr> idle))
   \<and> reply_code (fst (render sample_mjml2html production idle
                          [(lit ''mjml'', JStr (lit ''<mjml>#</mjml>''))]))
       = Some (lit ''NO_OUTPUT'')
   \<and> r_code (fst (render_item sample_mjml2html 0
                     \<lparr>item_id = JUndefined, item_mjml = lit ''<mjml>!</mjml>''\<rparr> idle))
       = Some (lit ''PROCESSING_ERROR'')
   \<and> reply_code (fst (render sample_mjml2html production idle
                          [(lit ''mjml'', JStr (lit ''<mjml>!</mjml>''))]))
       = Some (lit ''INTERNAL_ERROR'')"
  by (simp add: render_item_def render_def as_item_result_def sample_mjml2html_def
      reply_code_def has_errors_def failure_def field_def Let_def lit_def)

text \<open>
  C2 (same logic per item), amended. For a non-empty markup string that is too large,
  or on which the compiler returns diagnostics or a non-empty HTML string, the result
  of the batch callback is the reply of /render embedded as an ItemResult under the
  item's id: same success, same code and error text, same diagnostics, same html. When
  the compiler throws, the item's code is PROCESSING_ERROR, with the exception's
  message, where /render answers INTERNAL_ERROR.
\<close>

theorem item_logic_matches_render:
  assumes "field body (lit ''mjml'') = JStr (item_mjml it)" and "item_mjml it \<noteq> []"
  shows "(length (item_mjml it) > 1024 * 1024
          \<or> (\<exists>r. mjml2html (item_mjml it) soft_options = Inr r
                 \<and> (has_errors (out_errors r)
                    \<or> (truthy (out_html r) \<and> typeof (out_html r) = ''string''))) \<longrightarrow>
            fst (render_item mjml2html i it st)
              = as_item_result (if item_id it \<noteq> JUndefined then item_id it else JNum (of_nat i))
                  (fst (render mjml2html env st' body)))
       \<and> (\<forall>e. length (item_mjml it) \<le> 1024 * 1024
                \<and> mjml2html (item_mjml it) soft_options = Inl e \<longrightarrow>
              r_code (fst (render_item mjml2html i it st)) = Some (lit ''PROCESSING_ERROR'')
            \<and> r_error (fst (render_item mjml2html i it st)) = Some (exn_message e)
            \<and> reply_code (fst (render mjml2html env st' body)) = Some (lit ''INTERNAL_ERROR''))"
proof (intro conjI allI impI)
  assume "length (item_mjml it) > 1024 * 1024
          \<or> (\<exists>r. mjml2html (item_mjml it) soft_options = Inr r
                 \<and> (has_errors (out_errors r)
                    \<or> (truthy (out_html r) \<and> typeof (out_html r) = ''string'')))"
  with assms show "fst (render_item mjml2html i it st)
       = as_item_result (if item_id it \<noteq> JUndefined then item_id it else JNum (of_nat i))
           (fst (render mjml2html env st' body))"
    by (auto simp: render_item_def render_def as_item_result_def failure_def Let_def)
next
  fix e
  assume "length (item_mjml it) \<le> 1024 * 1024
        \<and> mjml2html (item_mjml it) soft_options = Inl e"
  with assms show "r_code (fst (render_item mjml2html i it st)) = Some (lit ''PROCESSING_ERROR'')"
    "r_error (fst (render_item mjml2html i it st)) = Some (exn_message e)"
    "reply_code (fst (render mjml2html env st' body)) = Some (lit ''INTERNAL_ERROR'')"
    by (simp_all add: render_item_def render_def reply_code_def failure_def Let_def)
qed

theorem item_logic_matches_render_witness:
  "field [(lit ''mjml'', JStr (item_mjml (sample_items ! 2)))] (lit ''mjml'')
       = JStr (item_mjml (sample_items ! 2))
   \<and> item_mjml (sample_items ! 2) \<noteq> []
   \<and> sample_mjml2html (item_mjml (sample_items ! 2)) soft_options
       = Inr \<lparr>out_html = JStr (lit ''<html>partial</html>''), out_errors = Some [sample_error]\<rparr>
   \<and> has_errors (out_errors
        \<lparr>out_html = JStr (lit ''<html>partial</html>''), out_errors = Some [sample_error]\<rparr>)
   \<and> fst (render_item sample_mjml2html 2 (sample_items ! 2) idle)
       = as_item_result (JNum 7)
           (fst (render sample_mjml2html production idle
              [(lit ''mjml'', JStr (item_mjml (sample_items ! 2)))]))"
proof -
  have f: "field [(lit ''mjml'', JStr (item_mjml (sample_items ! 2)))] (lit ''mjml'')
       = JStr (item_mjml (sample_items ! 2))"
    by (simp add: field_def)
  have n: "item_mjml (sample_items ! 2) \<noteq> []"
    and c: "sample_mjml2html (item_mjml (sample_items ! 2)) soft_options
       = Inr \<lparr>out_html = JStr (lit ''<html>partial</html>''), out_errors = Some [sample_error]\<rparr>"
    and i: "item_id (sample_items ! 2) = JNum 7"
    by (simp_all add: sample_items_def sample_mjml2html_def lit_def)
  have h: "has_errors (out_errors
        \<lparr>out_html = JStr (lit ''<html>partial</html>''), out_errors = Some [sample_error]\<rparr>)"
    by (simp add: has_errors_def)
  from c h have o: "length (item_mjml (sample_items ! 2)) > 1024 * 1024
       \<or> (\<exists>r. sample_mjml2html (item_mjml (sample_items ! 2)) soft_options = Inr r
              \<and> (has_errors (out_errors r)
                 \<or> (truthy (out_html r) \<and> typeof (out_html r) = ''string'')))"
    by blast
  note t = item_logic_matches_render [where mjml2html = sample_mjml2html and it = "sample_items ! 2"
      and i = 2 and st = idle and env = production and st' = idle, OF f n]
  from t o have "fst (render_item sample_mjml2html 2 (sample_items ! 2) idle)
       = as_item_result (if item_id (sample_items ! 2) \<noteq> JUndefined
                         then item_id (sample_items ! 2) else JNum (of_nat 2))
           (fst (render sample_mjml2html production idle
              [(lit ''mjml'', JStr (item_mjml (sample_items ! 2)))]))"
    by blast
  with i f n c h show ?thesis by simp
qed

text \<open>
  C10 (exposure of exception messages). When the compiler throws on an item, the item's
  result has code PROCESSING_ERROR and the exception's message as its \<open>error\<close>; the
  callback does not read the environment, so this holds in every mode. The
  INTERNAL_ERROR envelope of /render for the same throw, and that of the batch handler's
  outer \<open>catch\<close>, carry the message exactly when \<open>NODE_ENV\<close> is \<open>development\<close>.
\<close>

theorem exception_message_exposure:
  assumes "length (item_mjml it) \<le> 1024 * 1024"
    and "mjml2html (item_mjml it) soft_options = Inl e"
    and "field body (lit ''mjml'') = JStr (item_mjml it)" and "item_mjml it \<noteq> []"
  shows "r_code (fst (render_item mjml2html i it st)) = Some (lit ''PROCESSING_ERROR'')
       \<and> r_error (fst (render_item mjml2html i it st)) = Some (exn_message e)
       \<and> fst (render mjml2html env st body) =
           \<lparr>status = 500,
            payload = Failure \<lparr>error = lit ''Internal server error'', code = lit ''INTERNAL_ERROR'',
                               errors = None,
                               message = (if NODE_ENV env = Some (lit ''development'')
                                          then Some (exn_message e) else None),
                               statusCode = None\<rparr>\<rparr>
       \<and> fst (render_batch_catch env st e) =
           \<lparr>status = 500,
            payload = Failure \<lparr>error = lit ''Internal server error'', code = lit ''INTERNAL_ERROR'',
                               errors = None,
                               message = (if NODE_ENV env = Some (lit ''development'')
                                          then Some (exn_message e) else None),
                               statusCode = None\<rparr>\<rparr>"
  using assms
  by (simp add: render_item_def render_def render_batch_catch_def failure_def Let_def)

theorem exception_message_exposure_witness:
  "length (item_mjml (sample_items ! 1)) \<le> 1024 * 1024
   \<and> sample_mjml2html (item_mjml (sample_items ! 1)) soft_options = Inl (Exn (lit ''Malformed MJML''))
   \<and> field [(lit ''mjml'', JStr (item_mjml (sample_items ! 1)))] (lit ''mjml'')
       = JStr (item_mjml (sample_items ! 1))
   \<and> item_mjml (sample_items ! 1) \<noteq> []
   \<and> r_error (fst (render_item sample_mjml2html 1 (sample_items ! 1) idle))
       = Some (lit ''Malformed MJML'')
   \<and> fst (render sample_mjml2html production idle
            [(lit ''mjml'', JStr (item_mjml (sample_items ! 1)))])
       = \<lparr>status = 500,
          payload = Failure \<lparr>error = lit ''Internal server error'', code = lit ''INTERNAL_ERROR'',
                             errors = None, message = None, statusCode = None\<rparr>\<rparr>
   \<and> fst (render sample_mjml2html development idle
            [(lit ''mjml'', JStr (item_mjml (sample_items ! 1)))])
       = \<lparr>status = 500,
          payload = Failure \<lparr>error = lit ''Internal server error'', code = lit ''INTERNAL_ERROR'',
                             errors = None, message = Some (lit ''Malformed MJML''),
                             statusCode = None\<rparr>\<rparr>"
proof -
  have l: "length (item_mjml (sample_items ! 1)) \<le> 1024 * 1024"
    and c: "sample_mjml2html (item_mjml (sample_items ! 1)) soft_options
              = Inl (Exn (lit ''Malformed MJML''))"
    and n: "item_mjml (sample_items ! 1) \<noteq> []"
    by (simp_all add: sample_items_def sample_mjml2html_def lit_def)
  have f: "field [(lit ''mjml'', JStr (item_mjml (sample_items ! 1)))] (lit ''mjml'')
             = JStr (item_mjml (sample_items ! 1))"
    by (simp add: field_def)
  note p = exception_message_exposure [where mjml2html = sample_mjml2html and it = "sample_items ! 1" and i = 1 and st = idle and env = production, OF l c f n]
  note d = exception_message_exposure [where mjml2html = sample_mjml2html and it = "sample_items ! 1" and i = 1 and st = idle and env = development, OF l c f n]
  have pe: "NODE_ENV production \<noteq> Some (lit ''development'')"
    by (simp add: production_def lit_def)
  have de: "NODE_ENV development = Some (lit ''development'')"
    by (simp add: development_def)
  from p pe d de l c f n show ?thesis by simp
qed

section \<open>Properties of the error handler\<close>

text \<open>
  C8 (error normalization). The framework reports a schema violation as an error with
  status 400 and code FST_ERR_VALIDATION: the handler answers it with 400 and code
  INVALID_INPUT, never with the error's own code. An error with status 413 is answered
  with 413 and code CONTENT_TOO_LARGE.
\<close>

theorem error_normalization:
  "(fe_statusCode err = Some 400 \<and> fe_code err = Some (lit ''FST_ERR_VALIDATION'') \<longrightarrow>
      status (fst (errorHandler st err)) = 400
    \<and> reply_code (fst (errorHandler st err)) = Some (lit ''INVALID_INPUT'')
    \<and> reply_code (fst (errorHandler st err)) \<noteq> fe_code err)
 \<and> (fe_statusCode err = Some 413 \<longrightarrow>
      status (fst (errorHandler st err)) = 413
    \<and> reply_code (fst (errorHandler st err)) = Some (lit ''CONTENT_TOO_LARGE''))"
  by (simp add: errorHandler_def reply_code_def failure_def Let_def lit_def)

theorem error_normalization_witness:
  "fe_statusCode validation_error = Some 400
   \<and> fe_code validation_error = Some (lit ''FST_ERR_VALIDATION'')
   \<and> status (fst (errorHandler idle validation_error)) = 400
   \<and> reply_code (fst (errorHandler idle validation_error)) = Some (lit ''INVALID_INPUT'')
   \<and> fe_statusCode body_too_large = Some 413
   \<and> status (fst (errorHandler idle body_too_large)) = 413
   \<and> reply_code (fst (errorHandler idle body_too_large)) = Some (lit ''CONTENT_TOO_LARGE'')"
proof -
  have v: "fe_statusCode validation_error = Some 400
         \<and> fe_code validation_error = Some (lit ''FST_ERR_VALIDATION'')"
    by (simp add: validation_error_def)
  have b: "fe_statusCode body_too_large = Some 413"
    by (simp add: body_too_large_def)
  from error_normalization [of validation_error idle] v
  have 1: "status (fst (errorHandler idle validation_error)) = 400
         \<and> reply_code (fst (errorHandler idle validation_error)) = Some (lit ''INVALID_INPUT'')"
    by blast
  from error_normalization [of body_too_large idle] b
  have 2: "status (fst (errorHandler idle body_too_large)) = 413
         \<and> reply_code (fst (errorHandler idle body_too_large)) = Some (lit ''CONTENT_TOO_LARGE'')"
    by blast
  from v b 1 2 show ?thesis by blast
qed

section \<open>The hook in the request lifecycle\<close>

text \<open>
  The hook answers a request exactly when it is a POST to the URL \<open>/render-batch\<close>
  whose body is an object with an \<open>items\<close> array of more than 100 elements, and then
  with 413 and code TOO_MANY_ITEMS.
\<close>

lemma too_many_items_True:
  "too_many_items b = Some True \<longleftrightarrow>
     (\<exists>fs xs. b = JObj fs \<and> field fs (lit ''items'') = JArr xs \<and> length xs > 100)"
proof (cases b)
  case (JObj fs)
  then show ?thesis
    by (cases "field fs (lit ''items'')") (simp_all add: too_many_items_def)
qed (simp_all add: too_many_items_def)

lemma preHandler_Some:
  "preHandler req = Some r \<longleftrightarrow>
     req_url req = lit ''/render-batch'' \<and> req_method req = lit ''POST''
   \<and> (\<exists>fs xs. req_body req = JObj fs \<and> field fs (lit ''items'') = JArr xs \<and> length xs > 100)
   \<and> r = \<lparr>status = 413,
           payload = Failure (failure (lit ''Too many items (max 100 at once)'')
                                (lit ''TOO_MANY_ITEMS''))\<rparr>"
proof (cases "too_many_items (req_body req)")
  case None
  then have "too_many_items (req_body req) \<noteq> Some True" by simp
  with None show ?thesis
    unfolding too_many_items_True by (simp add: preHandler_def)
next
  case (Some t)
  show ?thesis
  proof (cases t)
    case True
    with Some have "too_many_items (req_body req) = Some True" by simp
    then show ?thesis
      using too_many_items_True [of "req_body req"] by (auto simp: preHandler_def)
  next
    case False
    with Some have f: "too_many_items (req_body req) = Some False" by simp
    then have "too_many_items (req_body req) \<noteq> Some True" by simp
    with f show ?thesis
      unfolding too_many_items_True by (simp add: preHandler_def)
  qed
qed

lemma those_replicate_None: "those (replicate (Suc n) None) = None"
  by simp

lemma those_replicate_Some: "those (replicate n (Some y)) = Some (replicate n y)"
  by (induction n) simp_all

text \<open>
  C6 (the item-count check before schema validation) does not hold of the code. A request with 101
  items that lack \<open>mjml\<close> is one the hook alone would answer with 413 TOO_MANY_ITEMS;
  schema validation comes first in the lifecycle and the reply is 400 INVALID_INPUT. A
  request to \<open>/render-batch?v=1\<close> with 101 well-formed items passes the hook, which
  compares the whole URL, and all 101 items are processed.
\<close>

theorem hook_runs_after_validation:
  "preHandler items_without_mjml
     = Some \<lparr>status = 413,
             payload = Failure (failure (lit ''Too many items (max 100 at once)'')
                                  (lit ''TOO_MANY_ITEMS''))\<rparr>
   \<and> status (fst (post_render_batch sample_validator sample_mjml2html idle items_without_mjml)) = 400
   \<and> reply_code (fst (post_render_batch sample_validator sample_mjml2html idle items_without_mjml))
       = Some (lit ''INVALID_INPUT'')
   \<and> preHandler items_with_query = None
   \<and> status (fst (post_render_batch sample_validator sample_mjml2html idle items_with_query)) = 200
   \<and> length (results_of
        (fst (post_render_batch sample_validator sample_mjml2html idle items_with_query))) = 101"
proof -
  have g: "preHandler items_without_mjml
     = Some \<lparr>status = 413,
             payload = Failure (failure (lit ''Too many items (max 100 at once)'')
                                  (lit ''TOO_MANY_ITEMS''))\<rparr>"
    unfolding preHandler_Some by (simp add: items_without_mjml_def field_def)
  have "replicate 101 (None :: item option) = replicate (Suc 100) None"
    by simp
  then have "those (replicate 101 (None :: item option)) = None"
    by (simp only: those_replicate_None)
  then have v: "sample_validator (req_body items_without_mjml) = Inl validation_error"
    by (simp add: sample_validator_def items_without_mjml_def field_def)
  have e: "status (fst (post_render_batch sample_validator sample_mjml2html idle items_without_mjml)) = 400
     \<and> reply_code (fst (post_render_batch sample_validator sample_mjml2html idle items_without_mjml))
       = Some (lit ''INVALID_INPUT'')"
    by (simp add: post_render_batch_def v errorHandler_def validation_error_def reply_code_def
        failure_def Let_def)
  have q: "preHandler items_with_query = None"
    by (simp add: preHandler_def items_with_query_def lit_def)
  have w: "sample_validator (req_body items_with_query)
             = Inr (replicate 101 \<lparr>item_id = JUndefined, item_mjml = lit ''<mjml></mjml>''\<rparr>)"
    by (simp add: sample_validator_def items_with_query_def field_def those_replicate_Some lit_def)
  have ne: "replicate 101 \<lparr>item_id = JUndefined, item_mjml = lit ''<mjml></mjml>''\<rparr> \<noteq> []"
    by simp
  have h: "status (fst (post_render_batch sample_validator sample_mjml2html idle items_with_query)) = 200
     \<and> length (results_of
        (fst (post_render_batch sample_validator sample_mjml2html idle items_with_query))) = 101"
  proof
    show "status (fst (post_render_batch sample_validator sample_mjml2html idle items_with_query)) = 200"
      by (simp add: post_render_batch_def w q render_batch_reply [OF ne])
    show "length (results_of
        (fst (post_render_batch sample_validator sample_mjml2html idle items_with_query))) = 101"
      by (simp add: post_render_batch_def w q results_of_render_batch [OF ne] length_map_items)
  qed
  from g e q h show ?thesis by blast
qed

end
